theory Spec2Isabelle
  imports Complex_Main
begin

section \<open>JavaScript values of the indicator engine\<close>

text \<open>
  The indicator engine (\<^verbatim>\<open>marketDataService.ts\<close>) and the setup generator
  (\<^verbatim>\<open>advancedAnalysisService.ts\<close>) compute with JavaScript numbers. A finite
  number is modelled by the real it denotes (\<open>Num\<close>): arithmetic on finite numbers is exact,
  without rounding or overflow, and there is a single zero. The special values that the
  program can produce from finite inputs are kept: \<open>PosInf\<close> and \<open>NegInf\<close> (division of a
  non-zero number by zero), \<open>NaN\<close> (\<open>0/0\<close>, \<open>Infinity - Infinity\<close>), and \<open>Undefined\<close>, the
  result of reading an array outside its bounds, which JavaScript does not reject.
  Every arithmetic operator first converts \<open>Undefined\<close> to \<open>NaN\<close> (ECMAScript
  \<open>ToNumber\<close>).
\<close>

datatype jsval = Num real | PosInf | NegInf | NaN | Undefined


fun is_nan :: "jsval \<Rightarrow> bool" where
  "is_nan NaN = True"
| "is_nan Undefined = True"
| "is_nan _ = False"

text \<open>\<open>a + b\<close>\<close>

fun js_add :: "jsval \<Rightarrow> jsval \<Rightarrow> jsval" where
  "js_add (Num x) (Num y) = Num (x + y)"
| "js_add NaN b = NaN"
| "js_add Undefined b = NaN"
| "js_add a NaN = NaN"
| "js_add a Undefined = NaN"
| "js_add PosInf NegInf = NaN"
| "js_add NegInf PosInf = NaN"
| "js_add PosInf b = PosInf"
| "js_add a PosInf = PosInf"
| "js_add NegInf b = NegInf"
| "js_add a NegInf = NegInf"

text \<open>Unary minus, and \<open>a - b\<close>, which IEEE arithmetic computes as \<open>a + (-b)\<close>.\<close>

fun js_neg :: "jsval \<Rightarrow> jsval" where
  "js_neg (Num x) = Num (- x)"
| "js_neg PosInf = NegInf"
| "js_neg NegInf = PosInf"
| "js_neg NaN = NaN"
| "js_neg Undefined = NaN"

definition js_sub :: "jsval \<Rightarrow> jsval \<Rightarrow> jsval" where
  "js_sub a b = js_add a (js_neg b)"

text \<open>\<open>a * b\<close>: an infinity times zero is \<open>NaN\<close>, otherwise the signs multiply.\<close>

fun js_mul :: "jsval \<Rightarrow> jsval \<Rightarrow> jsval" where
  "js_mul (Num x) (Num y) = Num (x * y)"
| "js_mul NaN b = NaN"
| "js_mul Undefined b = NaN"
| "js_mul a NaN = NaN"
| "js_mul a Undefined = NaN"
| "js_mul PosInf (Num y) = (if y = 0 then NaN else if 0 < y then PosInf else NegInf)"
| "js_mul NegInf (Num y) = (if y = 0 then NaN else if 0 < y then NegInf else PosInf)"
| "js_mul (Num x) PosInf = (if x = 0 then NaN else if 0 < x then PosInf else NegInf)"
| "js_mul (Num x) NegInf = (if x = 0 then NaN else if 0 < x then NegInf else PosInf)"
| "js_mul PosInf PosInf = PosInf"
| "js_mul PosInf NegInf = NegInf"
| "js_mul NegInf PosInf = NegInf"
| "js_mul NegInf NegInf = PosInf"

text \<open>
  \<open>a / b\<close>. Division by zero does not raise: a positive number over zero is \<open>Infinity\<close>, a
  negative one \<open>-Infinity\<close>, and \<open>0/0\<close> is \<open>NaN\<close>. (The model's zero is the positive zero;
  every zero divisor of this program is a sum started at \<open>0\<close> or a \<open>Math.abs\<close>, hence
  positive.)
\<close>

fun js_div :: "jsval \<Rightarrow> jsval \<Rightarrow> jsval" where
  "js_div (Num x) (Num y) =
     (if y = 0 then (if x = 0 then NaN else if 0 < x then PosInf else NegInf)
      else Num (x / y))"
| "js_div NaN b = NaN"
| "js_div Undefined b = NaN"
| "js_div a NaN = NaN"
| "js_div a Undefined = NaN"
| "js_div (Num x) PosInf = Num 0"
| "js_div (Num x) NegInf = Num 0"
| "js_div PosInf (Num y) = (if 0 \<le> y then PosInf else NegInf)"
| "js_div NegInf (Num y) = (if 0 \<le> y then NegInf else PosInf)"
| "js_div PosInf b = NaN"
| "js_div NegInf b = NaN"

text \<open>The comparisons \<open>a < b\<close>, \<open>a > b\<close> and \<open>a <= b\<close>: false as soon as one side is \<open>NaN\<close>.\<close>

fun js_lt :: "jsval \<Rightarrow> jsval \<Rightarrow> bool" where
  "js_lt (Num x) (Num y) = (x < y)"
| "js_lt NaN b = False"
| "js_lt Undefined b = False"
| "js_lt a NaN = False"
| "js_lt a Undefined = False"
| "js_lt a NegInf = False"
| "js_lt PosInf b = False"
| "js_lt NegInf b = True"
| "js_lt a PosInf = True"

definition js_gt :: "jsval \<Rightarrow> jsval \<Rightarrow> bool" where
  "js_gt a b = js_lt b a"

definition js_le :: "jsval \<Rightarrow> jsval \<Rightarrow> bool" where
  "js_le a b = (\<not> is_nan a \<and> \<not> is_nan b \<and> \<not> js_lt b a)"

text \<open>\<open>Math.abs\<close>, \<open>Math.sqrt\<close> and \<open>Math.pow\<close> with a natural exponent.\<close>

fun Math_abs :: "jsval \<Rightarrow> jsval" where
  "Math_abs (Num x) = Num \<bar>x\<bar>"
| "Math_abs PosInf = PosInf"
| "Math_abs NegInf = PosInf"
| "Math_abs NaN = NaN"
| "Math_abs Undefined = NaN"

fun Math_sqrt :: "jsval \<Rightarrow> jsval" where
  "Math_sqrt (Num x) = (if x < 0 then NaN else Num (sqrt x))"
| "Math_sqrt PosInf = PosInf"
| "Math_sqrt NegInf = NaN"
| "Math_sqrt NaN = NaN"
| "Math_sqrt Undefined = NaN"

fun Math_pow :: "jsval \<Rightarrow> nat \<Rightarrow> jsval" where
  "Math_pow a 0 = Num 1"
| "Math_pow (Num x) n = Num (x ^ n)"
| "Math_pow PosInf n = PosInf"
| "Math_pow NegInf n = (if even n then PosInf else NegInf)"
| "Math_pow NaN n = NaN"
| "Math_pow Undefined n = NaN"

text \<open>
  \<open>Math.min(...xs)\<close> and \<open>Math.max(...xs)\<close>: \<open>Infinity\<close> and \<open>-Infinity\<close> for no argument,
  \<open>NaN\<close> as soon as one argument is \<open>NaN\<close>, otherwise the least (greatest) argument.
\<close>

definition min2 :: "jsval \<Rightarrow> jsval \<Rightarrow> jsval" where
  "min2 x acc = (if is_nan x \<or> is_nan acc then NaN else if js_lt x acc then x else acc)"

definition max2 :: "jsval \<Rightarrow> jsval \<Rightarrow> jsval" where
  "max2 x acc = (if is_nan x \<or> is_nan acc then NaN else if js_gt x acc then x else acc)"

definition Math_min :: "jsval list \<Rightarrow> jsval" where
  "Math_min xs = fold min2 xs PosInf"

definition Math_max :: "jsval list \<Rightarrow> jsval" where
  "Math_max xs = fold max2 xs NegInf"

text \<open>
  \<open>xs[i]\<close>: the element when \<open>0 \<le> i < xs.length\<close>, \<open>undefined\<close> otherwise. The index is an
  integer, since the program computes \<open>prices.length - 1\<close> on arrays that may be empty.
\<close>

definition in_bounds :: "nat \<Rightarrow> int \<Rightarrow> bool" where
  "in_bounds n i = (0 \<le> i \<and> i < int n)"

definition js_index :: "jsval list \<Rightarrow> int \<Rightarrow> jsval" where
  "js_index xs i = (if in_bounds (length xs) i then xs ! nat i else Undefined)"

text \<open>\<open>xs.slice(-n)\<close>, the last \<open>n\<close> elements (all of them when there are fewer, and when
  \<open>n = 0\<close>, where \<open>-0\<close> is the start of the array), and \<open>xs.slice(0, n)\<close>.\<close>

definition slice_last :: "nat \<Rightarrow> 'a list \<Rightarrow> 'a list" where
  "slice_last n xs = (if n = 0 then xs else drop (length xs - n) xs)"

definition slice_first :: "nat \<Rightarrow> 'a list \<Rightarrow> 'a list" where
  "slice_first n xs = take n xs"

section \<open>The indicator engine\<close>

text \<open>
  The interfaces of \<^verbatim>\<open>marketDataService.ts\<close>. The fields of a candle and the ticker
  price are the finite prices of the data model; the indicators are computed values and
  may be any JavaScript value. Of \<open>MarketData\<close> only the price and the candles are kept.
  The field \<open>open\<close> of a candle is named \<open>open_price\<close>, \<open>open\<close> being a constant of HOL.
\<close>

record CandlestickData =
  timestamp :: int
  open_price :: real
  high :: real
  low :: real
  close :: real
  volume :: real

record MarketData =
  price :: real
  candlesticks :: "CandlestickData list"

record MACD =
  macd :: jsval
  signal :: jsval
  histogram :: jsval

record Bollinger =
  upper :: jsval
  middle :: jsval
  lower :: jsval

record TechnicalIndicators =
  rsi :: jsval
  macd :: MACD
  sma20 :: jsval
  sma50 :: jsval
  ema20 :: jsval
  bollinger :: Bollinger
  support :: jsval
  resistance :: jsval

text \<open>
  \<open>calculateRSI\<close>. The loop \<^verbatim>\<open>for (let i = 1; i <= period; i++)\<close> carries \<open>gains\<close> and
  \<open>losses\<close>; a change that is not greater than zero, \<open>NaN\<close> included, goes to the losses.
\<close>

function calculateRSI_loop :: "jsval list \<Rightarrow> nat \<Rightarrow> nat \<Rightarrow> jsval \<times> jsval \<Rightarrow> jsval \<times> jsval" where
  "calculateRSI_loop prices period i (gains, losses) =
     (if i \<le> period then
        (let change = js_sub (js_index prices (int (length prices) - int i))
                             (js_index prices (int (length prices) - int i - 1))
         in calculateRSI_loop prices period (i + 1)
              (if js_gt change (Num 0) then (js_add gains change, losses)
               else (gains, js_sub losses change)))
      else (gains, losses))"
  by pat_completeness auto
termination
  by (relation "measure (\<lambda>(prices, period, i, acc). period + 1 - i)") auto

declare calculateRSI_loop.simps [simp del]

definition calculateRSI :: "jsval list \<Rightarrow> nat \<Rightarrow> jsval" where
  "calculateRSI prices period =
     (if length prices < period + 1 then Num 50
      else
        (let (gains, losses) = calculateRSI_loop prices period 1 (Num 0, Num 0);
             avgGain = js_div gains (Num (real period));
             avgLoss = js_div losses (Num (real period));
             rs = js_div avgGain avgLoss
         in js_sub (Num 100) (js_div (Num 100) (js_add (Num 1) rs))))"

text \<open>\<open>calculateSMA\<close>: the fallback reads \<open>prices[prices.length - 1]\<close>.\<close>

definition calculateSMA :: "jsval list \<Rightarrow> nat \<Rightarrow> jsval" where
  "calculateSMA prices period =
     (if length prices < period then js_index prices (int (length prices) - 1)
      else
        (let sum = foldl (\<lambda>a b. js_add a b) (Num 0) (slice_last period prices)
         in js_div sum (Num (real period))))"

text \<open>\<open>calculateEMA\<close>: seeded with the mean of the first \<open>period\<close> prices, then the loop
  \<^verbatim>\<open>for (let i = period; i < prices.length; i++)\<close>.\<close>

function calculateEMA_loop :: "jsval list \<Rightarrow> jsval \<Rightarrow> nat \<Rightarrow> jsval \<Rightarrow> jsval" where
  "calculateEMA_loop prices multiplier i ema =
     (if i < length prices then
        calculateEMA_loop prices multiplier (i + 1)
          (js_add (js_mul (js_index prices (int i)) multiplier)
                  (js_mul ema (js_sub (Num 1) multiplier)))
      else ema)"
  by pat_completeness auto
termination
  by (relation "measure (\<lambda>(prices, multiplier, i, ema). length prices - i)") auto

declare calculateEMA_loop.simps [simp del]

definition calculateEMA :: "jsval list \<Rightarrow> nat \<Rightarrow> jsval" where
  "calculateEMA prices period =
     (if length prices < period then js_index prices (int (length prices) - 1)
      else
        (let multiplier = js_div (Num 2) (Num (real period + 1));
             ema = calculateSMA (slice_first period prices) period
         in calculateEMA_loop prices multiplier period ema))"

text \<open>\<open>calculateMACD\<close>: the signal line is the EMA of the one-element history
  \<^verbatim>\<open>[macd]\<close>.\<close>

definition calculateMACD :: "jsval list \<Rightarrow> MACD" where
  "calculateMACD prices =
     (let ema12 = calculateEMA prices 12;
          ema26 = calculateEMA prices 26;
          macd = js_sub ema12 ema26;
          macdHistory = [macd];
          signal = calculateEMA macdHistory 9;
          histogram = js_sub macd signal
      in \<lparr>MACD.macd = macd, signal = signal, histogram = histogram\<rparr>)"

definition calculateBollingerBands :: "jsval list \<Rightarrow> nat \<Rightarrow> jsval \<Rightarrow> Bollinger" where
  "calculateBollingerBands prices period stdDev =
     (let sma = calculateSMA prices period;
          recentPrices = slice_last period prices;
          variance = js_div
            (foldl (\<lambda>sum price. js_add sum (Math_pow (js_sub price sma) 2)) (Num 0) recentPrices)
            (Num (real period));
          standardDeviation = Math_sqrt variance
      in \<lparr>upper = js_add sma (js_mul standardDeviation stdDev),
          middle = sma,
          lower = js_sub sma (js_mul standardDeviation stdDev)\<rparr>)"

definition calculateTechnicalIndicators :: "CandlestickData list \<Rightarrow> TechnicalIndicators" where
  "calculateTechnicalIndicators candles =
     (let closes = map (\<lambda>c. Num (close c)) candles;
          highs = map (\<lambda>c. Num (high c)) candles;
          lows = map (\<lambda>c. Num (low c)) candles
      in \<lparr>rsi = calculateRSI closes 14,
          macd = calculateMACD closes,
          sma20 = calculateSMA closes 20,
          sma50 = calculateSMA closes 50,
          ema20 = calculateEMA closes 20,
          bollinger = calculateBollingerBands closes 20 (Num 2),
          support = Math_min (slice_last 20 lows),
          resistance = Math_max (slice_last 20 highs)\<rparr>)"

section \<open>The setup generator\<close>

text \<open>
  \<open>performTechnicalAnalysis\<close> of \<^verbatim>\<open>advancedAnalysisService.ts\<close> returns the trend, the
  price levels, the confidence and the risk/reward ratio. Its explanation strings
  (\<open>reasoning\<close>) are formatted from the same values and are left out.
\<close>

datatype Trend = Bullish | Bearish | Sideways

record Analysis =
  entry :: jsval
  stopLoss :: jsval
  takeProfit1 :: jsval
  takeProfit2 :: jsval
  confidence :: jsval
  trend :: Trend
  riskReward :: jsval

definition calculateConfidence :: "jsval list \<Rightarrow> jsval" where
  "calculateConfidence scores =
     (let totalScore = foldl (\<lambda>sum score. js_add sum score) (Num 0) scores
      in Math_min [Num 95, Math_max [Num 25, totalScore]])"

text \<open>The trend test at the head of \<open>performTechnicalAnalysis\<close> (first match wins).\<close>

definition determineTrend :: "jsval \<Rightarrow> TechnicalIndicators \<Rightarrow> Trend" where
  "determineTrend currentPrice indicators =
     (if js_gt currentPrice (sma20 indicators) \<and> js_gt (sma20 indicators) (sma50 indicators)
         \<and> js_gt (MACD.macd (macd indicators)) (signal (macd indicators))
      then Bullish
      else if js_lt currentPrice (sma20 indicators) \<and> js_lt (sma20 indicators) (sma50 indicators)
         \<and> js_lt (MACD.macd (macd indicators)) (signal (macd indicators))
      then Bearish
      else Sideways)"

definition performTechnicalAnalysis :: "MarketData \<Rightarrow> TechnicalIndicators \<Rightarrow> Analysis" where
  "performTechnicalAnalysis marketData indicators =
     (let currentPrice = Num (price marketData);
          rsi = rsi indicators;
          macd = macd indicators;
          sma20 = sma20 indicators;
          sma50 = sma50 indicators;
          bollinger = bollinger indicators;
          support = support indicators;
          resistance = resistance indicators;
          trend = determineTrend currentPrice indicators;
          (entry, stopLoss, takeProfit1, takeProfit2, confidence) =
            (if trend = Bullish then
               (js_mul currentPrice (Num 1.002),
                Math_max [support, lower bollinger, js_mul currentPrice (Num 0.95)],
                Math_min [resistance, upper bollinger, js_mul currentPrice (Num 1.08)],
                js_mul currentPrice (Num 1.15),
                calculateConfidence
                  [if js_lt rsi (Num 70) then Num 20 else Num 0,
                   if js_gt (MACD.macd macd) (signal macd) then Num 25 else Num 0,
                   if js_gt currentPrice sma20 then Num 20 else Num 0,
                   if js_gt sma20 sma50 then Num 15 else Num 0,
                   if js_gt currentPrice (middle bollinger) then Num 20 else Num 0])
             else if trend = Bearish then
               (js_mul currentPrice (Num 0.998),
                Math_min [resistance, upper bollinger, js_mul currentPrice (Num 1.05)],
                Math_max [support, lower bollinger, js_mul currentPrice (Num 0.92)],
                js_mul currentPrice (Num 0.85),
                calculateConfidence
                  [if js_gt rsi (Num 30) then Num 20 else Num 0,
                   if js_lt (MACD.macd macd) (signal macd) then Num 25 else Num 0,
                   if js_lt currentPrice sma20 then Num 20 else Num 0,
                   if js_lt sma20 sma50 then Num 15 else Num 0,
                   if js_lt currentPrice (middle bollinger) then Num 20 else Num 0])
             else
               (currentPrice,
                if trend = Bullish then support else resistance,
                if trend = Bullish then resistance else support,
                if trend = Bullish then js_mul resistance (Num 1.02) else js_mul support (Num 0.98),
                Num 45));
          riskReward = js_div (Math_abs (js_sub takeProfit1 entry)) (Math_abs (js_sub entry stopLoss))
      in \<lparr>entry = entry, stopLoss = stopLoss, takeProfit1 = takeProfit1,
          takeProfit2 = takeProfit2, confidence = confidence, trend = trend,
          riskReward = riskReward\<rparr>)"

section \<open>Array reads of the indicator engine\<close>

text \<open>
  JavaScript answers a read outside an array with \<open>undefined\<close> instead of failing, so
  that the value computed by \<open>calculateTechnicalIndicators\<close> does not show whether a read
  was in range. The functions below list, for each function of the engine, the indexed
  reads \<^verbatim>\<open>prices[...]\<close> it performs, as pairs of the length of the array and the index,
  in the order of execution. (\<open>slice\<close>, \<open>reduce\<close>, \<open>map\<close> and the spread into \<open>Math.min\<close>
  and \<open>Math.max\<close> do not index.)
\<close>

type_synonym array_read = "nat \<times> int"

text \<open>Iteration \<open>i\<close> of the RSI loop reads \<open>prices[length - i]\<close> and
  \<open>prices[length - i - 1]\<close>.\<close>

definition calculateRSI_reads :: "jsval list \<Rightarrow> nat \<Rightarrow> array_read list" where
  "calculateRSI_reads prices period =
     (if length prices < period + 1 then []
      else concat (map (\<lambda>i. [(length prices, int (length prices) - int i),
                                (length prices, int (length prices) - int i - 1)])
                       [1..<period + 1]))"

definition calculateSMA_reads :: "jsval list \<Rightarrow> nat \<Rightarrow> array_read list" where
  "calculateSMA_reads prices period =
     (if length prices < period then [(length prices, int (length prices) - 1)] else [])"

definition calculateEMA_reads :: "jsval list \<Rightarrow> nat \<Rightarrow> array_read list" where
  "calculateEMA_reads prices period =
     (if length prices < period then [(length prices, int (length prices) - 1)]
      else calculateSMA_reads (slice_first period prices) period
           @ map (\<lambda>i. (length prices, int i)) [period..<length prices])"

definition calculateMACD_reads :: "jsval list \<Rightarrow> array_read list" where
  "calculateMACD_reads prices =
     calculateEMA_reads prices 12 @ calculateEMA_reads prices 26
     @ calculateEMA_reads [MACD.macd (calculateMACD prices)] 9"

definition calculateBollingerBands_reads :: "jsval list \<Rightarrow> nat \<Rightarrow> array_read list" where
  "calculateBollingerBands_reads prices period = calculateSMA_reads prices period"

definition calculateTechnicalIndicators_reads :: "CandlestickData list \<Rightarrow> array_read list" where
  "calculateTechnicalIndicators_reads candles =
     (let closes = map (\<lambda>c. Num (close c)) candles
      in calculateRSI_reads closes 14
         @ calculateSMA_reads closes 20
         @ calculateSMA_reads closes 50
         @ calculateEMA_reads closes 20
         @ calculateMACD_reads closes
         @ calculateBollingerBands_reads closes 20)"

section \<open>Example inputs\<close>

text \<open>A candle whose open is its close, with no volume.\<close>

definition candle :: "int \<Rightarrow> real \<Rightarrow> real \<Rightarrow> real \<Rightarrow> CandlestickData" where
  "candle t h l c = \<lparr>timestamp = t, open_price = c, high = h, low = l, close = c, volume = 0\<rparr>"

text \<open>Sixty rising candles: closes \<open>100, 101, ..., 159\<close>, each high one above and each low
  one below the close.\<close>

definition rising_series :: "CandlestickData list" where
  "rising_series = map (\<lambda>k. candle (int k) (101 + real k) (99 + real k) (100 + real k)) [0..<60]"

text \<open>Ten candles, fewer than every lookback period of the engine.\<close>

definition short_series :: "CandlestickData list" where
  "short_series = map (\<lambda>k. candle (int k) (12 + real k) (8 + real k) (10 + real k)) [0..<10]"

text \<open>One bar that closed at 100 inside the range 90 to 110, one that closed at its high,
  and one flat bar.\<close>

definition range_bar :: "CandlestickData list" where
  "range_bar = [candle 0 110 90 100]"

definition top_bar :: "CandlestickData list" where
  "top_bar = [candle 0 100 90 100]"

definition flat_bar :: "CandlestickData list" where
  "flat_bar = [candle 0 100 100 100]"

definition market :: "real \<Rightarrow> CandlestickData list \<Rightarrow> MarketData" where
  "market p candles = \<lparr>price = p, candlesticks = candles\<rparr>"

text \<open>The setups generated for the one-bar series at the price 100, through the whole
  pipeline.\<close>

definition range_setup :: Analysis where
  "range_setup = performTechnicalAnalysis (market 100 range_bar) (calculateTechnicalIndicators range_bar)"

definition top_setup :: Analysis where
  "top_setup = performTechnicalAnalysis (market 100 top_bar) (calculateTechnicalIndicators top_bar)"

definition flat_setup :: Analysis where
  "flat_setup = performTechnicalAnalysis (market 100 flat_bar) (calculateTechnicalIndicators flat_bar)"

section \<open>Arithmetic and array lemmas\<close>


lemma js_lt_irrefl: "\<not> js_lt a a"
  by (cases a) simp_all

lemma js_sub_Num: "js_sub (Num x) (Num y) = Num (x - y)"
  by (simp add: js_sub_def)

lemma js_le_Num: "js_le (Num x) (Num y) \<longleftrightarrow> x \<le> y"
  by (auto simp: js_le_def)



lemma js_index_last: "xs \<noteq> [] \<Longrightarrow> js_index xs (int (length xs) - 1) = last xs"
  by (cases xs rule: rev_cases) (simp_all add: js_index_def in_bounds_def nth_append)


lemma slice_last_map: "slice_last n (map f xs) = map f (slice_last n xs)"
  by (simp add: slice_last_def drop_map)

lemma slice_last_nonempty: "xs \<noteq> [] \<Longrightarrow> slice_last n xs \<noteq> []"
  by (cases xs) (auto simp: slice_last_def)

lemma last_in_slice_last:
  assumes "xs \<noteq> []"
  shows "last xs \<in> set (slice_last n xs)"
proof -
  have "last (slice_last n xs) = last xs"
    using assms by (simp add: slice_last_def)
  moreover have "last (slice_last n xs) \<in> set (slice_last n xs)"
    using assms by (intro last_in_set slice_last_nonempty)
  ultimately show ?thesis by simp
qed

lemma foldl_add_Num: "foldl (\<lambda>a b. js_add a b) (Num a) (map Num ys) = Num (a + sum_list ys)"
  by (induction ys arbitrary: a) simp_all

section \<open>Moving averages of finite prices\<close>

lemma calculateSMA_short: "prices \<noteq> [] \<Longrightarrow> length prices < period \<Longrightarrow> calculateSMA prices period = last prices"
  by (simp add: calculateSMA_def js_index_last)

lemma calculateEMA_short: "prices \<noteq> [] \<Longrightarrow> length prices < period \<Longrightarrow> calculateEMA prices period = last prices"
  by (simp add: calculateEMA_def js_index_last)




lemma calculateEMA_singleton: "calculateEMA [v] 9 = v"
  by (simp add: calculateEMA_def js_index_def in_bounds_def)

lemma calculateMACD_signal: "signal (calculateMACD prices) = MACD.macd (calculateMACD prices)"
  by (simp add: calculateMACD_def Let_def calculateEMA_singleton)


section \<open>Bollinger bands, support and resistance\<close>



lemma fold_min2_Num: "fold min2 (map Num ys) (Num a) = Num (fold min ys a)"
  by (induction ys arbitrary: a) (auto simp: min2_def min_def)

lemma fold_max2_Num: "fold max2 (map Num ys) (Num a) = Num (fold max ys a)"
  by (induction ys arbitrary: a) (auto simp: max2_def max_def js_gt_def)

lemma Math_min_Num:
  assumes "ys \<noteq> []"
  shows "Math_min (map Num ys) = Num (Min (set ys))"
proof -
  from assms obtain y zs where ys: "ys = y # zs"
    by (cases ys) auto
  have "Math_min (map Num ys) = Num (fold min zs y)"
    by (simp add: ys Math_min_def min2_def fold_min2_Num)
  also have "fold min zs y = Min (set ys)"
    unfolding ys by (rule Min.set_eq_fold [symmetric])
  finally show ?thesis .
qed

lemma Math_max_Num:
  assumes "ys \<noteq> []"
  shows "Math_max (map Num ys) = Num (Max (set ys))"
proof -
  from assms obtain y zs where ys: "ys = y # zs"
    by (cases ys) auto
  have "Math_max (map Num ys) = Num (fold max zs y)"
    by (simp add: ys Math_max_def max2_def js_gt_def fold_max2_Num)
  also have "fold max zs y = Max (set ys)"
    unfolding ys by (rule Max.set_eq_fold [symmetric])
  finally show ?thesis .
qed

lemma support_Num:
  assumes "candles \<noteq> []"
  shows "support (calculateTechnicalIndicators candles) = Num (Min (low ` set (slice_last 20 candles)))"
proof -
  have "map low (slice_last 20 candles) \<noteq> []"
    using assms by (simp add: slice_last_nonempty)
  from Math_min_Num [OF this]
  have "Math_min (map (\<lambda>c. Num (low c)) (slice_last 20 candles))
      = Num (Min (low ` set (slice_last 20 candles)))"
    by (simp add: comp_def)
  then show ?thesis
    by (simp add: calculateTechnicalIndicators_def Let_def slice_last_map)
qed

lemma resistance_Num:
  assumes "candles \<noteq> []"
  shows "resistance (calculateTechnicalIndicators candles) = Num (Max (high ` set (slice_last 20 candles)))"
proof -
  have "map high (slice_last 20 candles) \<noteq> []"
    using assms by (simp add: slice_last_nonempty)
  from Math_max_Num [OF this]
  have "Math_max (map (\<lambda>c. Num (high c)) (slice_last 20 candles))
      = Num (Max (high ` set (slice_last 20 candles)))"
    by (simp add: comp_def)
  then show ?thesis
    by (simp add: calculateTechnicalIndicators_def Let_def slice_last_map)
qed

section \<open>All reads are within bounds\<close>






section \<open>Lemmas on the setup generator\<close>

lemma determineTrend_pipeline: "determineTrend p (calculateTechnicalIndicators candles) = Sideways"
  by (simp add: determineTrend_def calculateTechnicalIndicators_def Let_def calculateMACD_signal
      js_gt_def js_lt_irrefl)

lemma pta_trend: "trend (performTechnicalAnalysis md ind) = determineTrend (Num (price md)) ind"
  by (simp add: performTechnicalAnalysis_def Let_def split: prod.splits)

lemma pta_riskReward:
  "riskReward (performTechnicalAnalysis md ind) =
     js_div (Math_abs (js_sub (takeProfit1 (performTechnicalAnalysis md ind))
                              (entry (performTechnicalAnalysis md ind))))
            (Math_abs (js_sub (entry (performTechnicalAnalysis md ind))
                              (stopLoss (performTechnicalAnalysis md ind))))"
  by (simp add: performTechnicalAnalysis_def Let_def split: prod.splits)

lemma pta_sideways:
  assumes "determineTrend (Num (price md)) ind = Sideways"
  shows "entry (performTechnicalAnalysis md ind) = Num (price md)"
    and "stopLoss (performTechnicalAnalysis md ind) = resistance ind"
    and "takeProfit1 (performTechnicalAnalysis md ind) = support ind"
    and "takeProfit2 (performTechnicalAnalysis md ind) = js_mul (support ind) (Num 0.98)"
    and "confidence (performTechnicalAnalysis md ind) = Num 45"
  using assms by (simp_all add: performTechnicalAnalysis_def Let_def)

lemma score_Num: "(if c then Num a else Num b) = Num (if c then a else b)"
  by simp

lemma calculateConfidence_Num:
  "calculateConfidence [Num a, Num b, Num c, Num d, Num e]
     = Num (min 95 (max 25 (a + b + c + d + e)))"
  by (simp add: calculateConfidence_def Let_def Math_min_def Math_max_def min2_def max2_def
      js_gt_def min_def max_def)

lemma pta_confidence:
  "\<exists>c. confidence (performTechnicalAnalysis md ind) = Num c \<and> 25 \<le> c \<and> c \<le> 95"
proof (cases "determineTrend (Num (price md)) ind")
  case Bullish
  then show ?thesis
    by (simp add: performTechnicalAnalysis_def Let_def score_Num calculateConfidence_Num)
next
  case Bearish
  then show ?thesis
    by (simp add: performTechnicalAnalysis_def Let_def score_Num calculateConfidence_Num)
next
  case Sideways
  then show ?thesis
    by (simp add: pta_sideways)
qed

section \<open>The example inputs, evaluated\<close>

lemma rising_closes:
  assumes "length candles = 60" and "\<forall>k<60. close (candles ! k) = 100 + real k"
  shows "map (\<lambda>c. Num (close c)) candles = map (\<lambda>k. Num (100 + real k)) [0..<60]"
  using assms by (intro nth_equalityI) simp_all

lemma rising_sma20: "calculateSMA (map (\<lambda>k. Num (100 + real k)) [0..<60]) 20 = Num 149.5"
proof -
  have "slice_last 20 (map (\<lambda>k. Num (100 + real k)) [0..<60])
      = map Num (map (\<lambda>k. 100 + real k) [40..<60])"
    by (simp add: slice_last_def drop_map)
  moreover have "sum_list (map (\<lambda>k. 100 + real k) [40..<60]) = 2990"
    by (simp add: upt_rec)
  ultimately show ?thesis
    by (simp add: calculateSMA_def Let_def foldl_add_Num)
qed

lemma rising_sma50: "calculateSMA (map (\<lambda>k. Num (100 + real k)) [0..<60]) 50 = Num 134.5"
proof -
  have "slice_last 50 (map (\<lambda>k. Num (100 + real k)) [0..<60])
      = map Num (map (\<lambda>k. 100 + real k) [10..<60])"
    by (simp add: slice_last_def drop_map)
  moreover have "sum_list (map (\<lambda>k. 100 + real k) [10..<60]) = 6725"
    by (simp add: upt_rec)
  ultimately show ?thesis
    by (simp add: calculateSMA_def Let_def foldl_add_Num)
qed

lemma rising_rsi: "calculateRSI (map (\<lambda>k. Num (100 + real k)) [0..<60]) 14 = Num 100"
  by (simp add: calculateRSI_def Let_def calculateRSI_loop.simps js_index_def in_bounds_def
      js_sub_def js_gt_def)

lemma rising_ema12: "calculateEMA (map (\<lambda>k. Num (100 + real k)) [0..<60]) 12 = Num 153.5"
  by (simp add: calculateEMA_def Let_def calculateEMA_loop.simps js_index_def in_bounds_def
      js_sub_def calculateSMA_def slice_first_def slice_last_def take_map foldl_add_Num upt_rec)

lemma rising_ema26: "calculateEMA (map (\<lambda>k. Num (100 + real k)) [0..<60]) 26 = Num 146.5"
  by (simp add: calculateEMA_def Let_def calculateEMA_loop.simps js_index_def in_bounds_def
      js_sub_def calculateSMA_def slice_first_def slice_last_def take_map foldl_add_Num upt_rec)

section \<open>The one-bar examples\<close>

lemma one_bar_support: "support (calculateTechnicalIndicators [candle t h l c]) = Num l"
  by (simp add: support_Num slice_last_def candle_def)

lemma one_bar_resistance: "resistance (calculateTechnicalIndicators [candle t h l c]) = Num h"
  by (simp add: resistance_Num slice_last_def candle_def)

lemma range_setup_levels:
  "entry range_setup = Num 100" "stopLoss range_setup = Num 110" "takeProfit1 range_setup = Num 90"
  "takeProfit2 range_setup = Num 88.2"
  by (simp_all add: range_setup_def range_bar_def market_def pta_sideways determineTrend_pipeline
      one_bar_support one_bar_resistance)

lemma top_setup_levels:
  "entry top_setup = Num 100" "stopLoss top_setup = Num 100" "takeProfit1 top_setup = Num 90"
  by (simp_all add: top_setup_def top_bar_def market_def pta_sideways determineTrend_pipeline
      one_bar_support one_bar_resistance)

lemma flat_setup_levels:
  "entry flat_setup = Num 100" "stopLoss flat_setup = Num 100" "takeProfit1 flat_setup = Num 100"
  by (simp_all add: flat_setup_def flat_bar_def market_def pta_sideways determineTrend_pipeline
      one_bar_support one_bar_resistance)

section \<open>Claims on the setup generator\<close>

text \<open>
  C4 (sideways levels): when the trend is sideways, the setup has \<open>entry = price\<close>,
  \<open>stopLoss = support\<close>, \<open>takeProfit1 = resistance\<close> and
  \<open>takeProfit2 = resistance * 1.02\<close>. The code does not do this. Its sideways branch selects
  each of the three levels by the test \<open>trend === 'bullish'\<close>, which is false throughout
  that branch, so the other alternatives are taken. For one bar with low 90, high 110 and
  close 100, at the price 100, the pipeline returns a sideways setup with entry 100,
  stop-loss 110 (the resistance), first take-profit 90 (the support) and second
  take-profit \<open>90 * 0.98 = 88.2\<close>.
\<close>

theorem range_bar_sideways_levels:
  "trend range_setup = Sideways \<and> entry range_setup = Num 100 \<and> stopLoss range_setup = Num 110
   \<and> takeProfit1 range_setup = Num 90 \<and> takeProfit2 range_setup = Num 88.2
   \<and> support (calculateTechnicalIndicators range_bar) = Num 90
   \<and> resistance (calculateTechnicalIndicators range_bar) = Num 110"
  by (simp add: range_setup_levels)
    (simp add: range_setup_def pta_trend determineTrend_pipeline range_bar_def one_bar_support
      one_bar_resistance)

text \<open>
  C5, as stated, fails where entry and stop-loss coincide: no sentinel is produced. For one
  bar that closed at its high 100 (low 90) the setup has entry = stop-loss = 100 and the
  ratio is \<open>10/0 = Infinity\<close>; for one flat bar at 100 all three levels are 100 and the
  ratio is \<open>0/0 = NaN\<close>.
\<close>

theorem zero_stop_distance_counterexample:
  "entry top_setup = stopLoss top_setup \<and> riskReward top_setup = PosInf
   \<and> entry flat_setup = stopLoss flat_setup \<and> riskReward flat_setup = NaN"
proof -
  have "riskReward top_setup = PosInf"
    unfolding top_setup_def pta_riskReward
    by (simp add: top_setup_levels [unfolded top_setup_def] js_sub_Num)
  moreover have "riskReward flat_setup = NaN"
    unfolding flat_setup_def pta_riskReward
    by (simp add: flat_setup_levels [unfolded flat_setup_def] js_sub_Num)
  ultimately show ?thesis
    by (simp add: top_setup_levels flat_setup_levels)
qed

text \<open>
  C5 (risk/reward), amended. For every generated setup whose entry \<open>e\<close>, stop-loss \<open>l\<close> and
  first take-profit \<open>t\<close> are finite: when \<open>e \<noteq> l\<close> the ratio is \<open>|t - e| / |e - l|\<close>; when
  \<open>e = l\<close> the division by zero is carried out, giving \<open>Infinity\<close> if \<open>t \<noteq> e\<close> and \<open>NaN\<close>
  if \<open>t = e\<close>.
\<close>

theorem risk_reward_ratio:
  assumes "entry (performTechnicalAnalysis md ind) = Num e"
    and "stopLoss (performTechnicalAnalysis md ind) = Num l"
    and "takeProfit1 (performTechnicalAnalysis md ind) = Num t"
  shows "riskReward (performTechnicalAnalysis md ind) =
           (if e \<noteq> l then Num (\<bar>t - e\<bar> / \<bar>e - l\<bar>) else if t \<noteq> e then PosInf else NaN)"
  by (subst pta_riskReward) (simp add: assms js_sub_Num)

theorem risk_reward_ratio_witness:
  "entry range_setup = Num 100 \<and> stopLoss range_setup = Num 110 \<and> takeProfit1 range_setup = Num 90
   \<and> riskReward range_setup = Num 1"
  using risk_reward_ratio [of "market 100 range_bar" "calculateTechnicalIndicators range_bar" 100 110 90]
    range_setup_levels
  by (simp add: range_setup_def)

text \<open>
  C6 (confidence). For every current price and every indicator bundle the confidence of the
  generated setup is a number between 25 and 95 inclusive, and it is exactly 45 when the
  trend is sideways.
\<close>

theorem confidence_range:
  "\<exists>c. confidence (performTechnicalAnalysis md ind) = Num c \<and> 25 \<le> c \<and> c \<le> 95
       \<and> (trend (performTechnicalAnalysis md ind) = Sideways \<longrightarrow> c = 45)"
proof (cases "determineTrend (Num (price md)) ind = Sideways")
  case True
  then show ?thesis by (simp add: pta_sideways)
next
  case False
  with pta_confidence [of md ind] show ?thesis
    by (simp add: pta_trend)
qed

theorem confidence_range_witness:
  "trend range_setup = Sideways \<and> confidence range_setup = Num 45"
proof -
  have "trend range_setup = Sideways"
    by (simp add: range_setup_def pta_trend determineTrend_pipeline)
  with confidence_range [of "market 100 range_bar" "calculateTechnicalIndicators range_bar"]
  show ?thesis
    by (auto simp: range_setup_def)
qed

section \<open>Claims on the composed pipeline\<close>

text \<open>
  C3 (the pipeline is always sideways). In every bundle computed by
  \<open>calculateTechnicalIndicators\<close> the MACD signal is the same value as the MACD line, so
  neither \<open>macd > signal\<close> nor \<open>macd < signal\<close> holds, and every setup that
  \<open>performTechnicalAnalysis\<close> generates from such a bundle, at any price, has trend sideways
  and confidence 45. (For an empty series the common value is \<open>NaN\<close>, for which the
  comparisons are false as well.)
\<close>

theorem pipeline_always_sideways:
  "MACD.macd (macd (calculateTechnicalIndicators candles)) = signal (macd (calculateTechnicalIndicators candles))
   \<and> \<not> js_gt (MACD.macd (macd (calculateTechnicalIndicators candles))) (signal (macd (calculateTechnicalIndicators candles)))
   \<and> \<not> js_lt (MACD.macd (macd (calculateTechnicalIndicators candles))) (signal (macd (calculateTechnicalIndicators candles)))
   \<and> trend (performTechnicalAnalysis md (calculateTechnicalIndicators candles)) = Sideways
   \<and> confidence (performTechnicalAnalysis md (calculateTechnicalIndicators candles)) = Num 45"
proof -
  have "signal (macd (calculateTechnicalIndicators candles)) = MACD.macd (macd (calculateTechnicalIndicators candles))"
    by (simp add: calculateTechnicalIndicators_def Let_def calculateMACD_signal)
  then show ?thesis
    by (simp add: js_gt_def js_lt_irrefl pta_trend pta_sideways determineTrend_pipeline)
qed

section \<open>Claims on the indicator engine\<close>

text \<open>
  C9 (fallbacks). On a non-empty close sequence shorter than the lookback of an indicator,
  the indicator returns its fallback: the RSI of period \<open>period\<close> is exactly 50 when there
  are fewer than \<open>period + 1\<close> closes (fewer than 15 for the period 14 of the engine), and
  the SMA and the EMA are the most recent close when there are fewer than \<open>period\<close>
  closes.
\<close>

theorem short_history_fallbacks:
  assumes "prices \<noteq> []"
  shows "(length prices < period + 1 \<longrightarrow> calculateRSI prices period = Num 50)
       \<and> (length prices < period \<longrightarrow>
            calculateSMA prices period = last prices \<and> calculateEMA prices period = last prices)"
  using assms by (simp add: calculateRSI_def calculateSMA_short calculateEMA_short)

theorem short_history_fallbacks_witness:
  "map (\<lambda>c. Num (close c)) short_series \<noteq> []
   \<and> length (map (\<lambda>c. Num (close c)) short_series) = 10
   \<and> calculateRSI (map (\<lambda>c. Num (close c)) short_series) 14 = Num 50
   \<and> calculateSMA (map (\<lambda>c. Num (close c)) short_series) 14 = Num 19
   \<and> calculateEMA (map (\<lambda>c. Num (close c)) short_series) 14 = Num 19"
  using short_history_fallbacks [of "map (\<lambda>c. Num (close c)) short_series" 14]
  by (simp add: short_series_def candle_def last_map)



text \<open>
  C8 (support and resistance). For every non-empty series in which each candle has
  \<open>low \<le> high\<close>, the support is the minimum of the last 20 lows (of all lows when there
  are fewer), the resistance is the maximum of the last 20 highs, and
  \<open>support \<le> resistance\<close>.
\<close>

theorem support_below_resistance:
  assumes "candles \<noteq> []" and "\<forall>c\<in>set candles. low c \<le> high c"
  shows "support (calculateTechnicalIndicators candles) = Num (Min (low ` set (slice_last 20 candles)))
       \<and> resistance (calculateTechnicalIndicators candles) = Num (Max (high ` set (slice_last 20 candles)))
       \<and> js_le (support (calculateTechnicalIndicators candles))
               (resistance (calculateTechnicalIndicators candles))"
proof -
  let ?w = "slice_last 20 candles"
  have mem: "last candles \<in> set ?w"
    using assms(1) by (rule last_in_slice_last)
  have "last candles \<in> set candles"
    using assms(1) by simp
  then have "low (last candles) \<le> high (last candles)"
    using assms(2) by blast
  moreover have "Min (low ` set ?w) \<le> low (last candles)"
    using mem by (intro Min_le) auto
  moreover have "high (last candles) \<le> Max (high ` set ?w)"
    using mem by (intro Max_ge) auto
  ultimately have "Min (low ` set ?w) \<le> Max (high ` set ?w)"
    by linarith
  then show ?thesis
    using assms(1) by (simp add: support_Num resistance_Num js_le_Num)
qed

theorem support_below_resistance_witness:
  "rising_series \<noteq> []
   \<and> support (calculateTechnicalIndicators rising_series) = Num 139
   \<and> resistance (calculateTechnicalIndicators rising_series) = Num 160
   \<and> js_le (support (calculateTechnicalIndicators rising_series))
           (resistance (calculateTechnicalIndicators rising_series))"
proof -
  have ne: "rising_series \<noteq> []"
    by (simp add: rising_series_def)
  have ord: "\<forall>c\<in>set rising_series. low c \<le> high c"
    by (auto simp: rising_series_def candle_def)
  have w: "slice_last 20 rising_series
      = map (\<lambda>k. candle (int k) (101 + real k) (99 + real k) (100 + real k)) [40..<60]"
    by (simp add: slice_last_def rising_series_def drop_map)
  have "Min (low ` set (slice_last 20 rising_series)) = 139"
    unfolding w by (simp add: candle_def upt_rec)
  moreover have "Max (high ` set (slice_last 20 rising_series)) = 160"
    unfolding w by (simp add: candle_def upt_rec)
  ultimately show ?thesis
    using support_below_resistance [OF ne ord] ne ord by (simp add: js_le_Num)
qed

text \<open>
  A read within bounds returns an element of the array. The empty series does read out of
  bounds (the fallbacks read index \<open>-1\<close>), so the precondition of C10 is needed.
\<close>

lemma js_index_in_bounds: "in_bounds (length xs) i \<Longrightarrow> js_index xs i = xs ! nat i \<and> js_index xs i \<in> set xs"
  by (auto simp: js_index_def in_bounds_def nat_less_iff)


lemma empty_series_reads: "(0, - 1) \<in> set (calculateTechnicalIndicators_reads [])"
  by (simp add: calculateTechnicalIndicators_reads_def calculateSMA_reads_def)






section \<open>The rising series\<close>

text \<open>
  C1, as stated, fails in its last part: for the sixty rising candles and the latest close
  159 as price, the trend of the generated setup is not bullish.
\<close>

theorem rising_series_not_bullish_counterexample:
  "trend (performTechnicalAnalysis (market 159 rising_series)
            (calculateTechnicalIndicators rising_series)) \<noteq> Bullish"
  by (simp add: pta_trend determineTrend_pipeline)

text \<open>
  C1 (rising series), amended. For every series of 60 candles with closes
  \<open>100, 101, ..., 159\<close>, highs one above and lows one below the close, the bundle has
  \<open>sma20 = 149.5\<close>, \<open>sma50 = 134.5\<close> and \<open>rsi = 100\<close> (the average loss is zero, the
  relative strength is \<open>Infinity\<close>). At the price 159, the latest close, the price is above
  \<open>sma20\<close>, \<open>sma20\<close> is above \<open>sma50\<close> and the MACD line is positive, but the signal equals
  the MACD line, so the trend of the generated setup is sideways.
\<close>

theorem rising_series_indicators:
  assumes "length candles = 60"
    and "\<forall>k<60. close (candles ! k) = 100 + real k
             \<and> high (candles ! k) = close (candles ! k) + 1
             \<and> low (candles ! k) = close (candles ! k) - 1"
    and "price md = 159"
  shows "sma20 (calculateTechnicalIndicators candles) = Num 149.5
       \<and> sma50 (calculateTechnicalIndicators candles) = Num 134.5
       \<and> rsi (calculateTechnicalIndicators candles) = Num 100
       \<and> js_gt (Num (price md)) (sma20 (calculateTechnicalIndicators candles))
       \<and> js_gt (sma20 (calculateTechnicalIndicators candles)) (sma50 (calculateTechnicalIndicators candles))
       \<and> js_gt (MACD.macd (macd (calculateTechnicalIndicators candles))) (Num 0)
       \<and> signal (macd (calculateTechnicalIndicators candles))
           = MACD.macd (macd (calculateTechnicalIndicators candles))
       \<and> trend (performTechnicalAnalysis md (calculateTechnicalIndicators candles)) = Sideways"
proof -
  have closes: "map (\<lambda>c. Num (close c)) candles = map (\<lambda>k. Num (100 + real k)) [0..<60]"
    using assms(1,2) by (intro rising_closes) auto
  have "MACD.macd (macd (calculateTechnicalIndicators candles)) = Num 7"
    by (simp add: calculateTechnicalIndicators_def Let_def closes calculateMACD_def rising_ema12
        rising_ema26 js_sub_Num)
  moreover have "signal (macd (calculateTechnicalIndicators candles))
      = MACD.macd (macd (calculateTechnicalIndicators candles))"
    by (simp add: calculateTechnicalIndicators_def Let_def calculateMACD_signal)
  moreover have "sma20 (calculateTechnicalIndicators candles) = Num 149.5"
    "sma50 (calculateTechnicalIndicators candles) = Num 134.5"
    "rsi (calculateTechnicalIndicators candles) = Num 100"
    by (simp_all add: calculateTechnicalIndicators_def Let_def closes rising_sma20 rising_sma50
        rising_rsi)
  ultimately show ?thesis
    using assms(3) by (simp add: js_gt_def pta_trend determineTrend_pipeline)
qed

theorem rising_series_indicators_witness:
  "length rising_series = 60
   \<and> sma20 (calculateTechnicalIndicators rising_series) = Num 149.5
   \<and> sma50 (calculateTechnicalIndicators rising_series) = Num 134.5
   \<and> rsi (calculateTechnicalIndicators rising_series) = Num 100
   \<and> trend (performTechnicalAnalysis (market 159 rising_series)
              (calculateTechnicalIndicators rising_series)) = Sideways"
  using rising_series_indicators [of rising_series "market 159 rising_series"]
  by (simp add: rising_series_def candle_def market_def)

end
